theory Spec2Isabelle
  imports Main "HOL-Library.Word" "HOL-Library.AList"
begin

unbundle bit_operations_syntax

section \<open>Bytes and strings\<close>

text \<open>
  A Go \<^verbatim>\<open>string\<close> is a sequence of bytes, here a \<^typ>\<open>string\<close> (a list of 8-bit
  characters); a Go \<^verbatim>\<open>[]byte\<close> is a list of 8-bit words. \<^verbatim>\<open>[]byte(s)\<close> and
  \<^verbatim>\<open>string(b)\<close> convert between the two.
\<close>

type_synonym byte = "8 word"
type_synonym word32 = "32 word"

definition bytes_of :: "string \<Rightarrow> byte list" where
  "bytes_of s = map of_char s"

definition string_of :: "byte list \<Rightarrow> string" where
  "string_of bs = map (\<lambda>b. char_of (unat b)) bs"

section \<open>crypto/sha256 and crypto/hmac (Go standard library)\<close>

text \<open>
  SHA-256 as in FIPS 180-4 and HMAC as in RFC 2104, which is what
  \<^verbatim>\<open>hmac.New(sha256.New, key)\<close>, \<^verbatim>\<open>Write\<close> and \<^verbatim>\<open>Sum(nil)\<close> compute.
\<close>

definition rotr :: "nat \<Rightarrow> word32 \<Rightarrow> word32" where
  "rotr n x = (drop_bit n x) OR (push_bit (32 - n) x)"

definition Ch :: "word32 \<Rightarrow> word32 \<Rightarrow> word32 \<Rightarrow> word32" where
  "Ch x y z = (x AND y) XOR (NOT x AND z)"

definition Maj :: "word32 \<Rightarrow> word32 \<Rightarrow> word32 \<Rightarrow> word32" where
  "Maj x y z = (x AND y) XOR (x AND z) XOR (y AND z)"

definition bsig0 :: "word32 \<Rightarrow> word32" where
  "bsig0 x = rotr 2 x XOR rotr 13 x XOR rotr 22 x"

definition bsig1 :: "word32 \<Rightarrow> word32" where
  "bsig1 x = rotr 6 x XOR rotr 11 x XOR rotr 25 x"

definition ssig0 :: "word32 \<Rightarrow> word32" where
  "ssig0 x = rotr 7 x XOR rotr 18 x XOR drop_bit 3 x"

definition ssig1 :: "word32 \<Rightarrow> word32" where
  "ssig1 x = rotr 17 x XOR rotr 19 x XOR drop_bit 10 x"

definition K256 :: "word32 list" where
  "K256 = [
  0x428A2F98, 0x71374491, 0xB5C0FBCF, 0xE9B5DBA5, 0x3956C25B, 0x59F111F1, 0x923F82A4, 0xAB1C5ED5,
  0xD807AA98, 0x12835B01, 0x243185BE, 0x550C7DC3, 0x72BE5D74, 0x80DEB1FE, 0x9BDC06A7, 0xC19BF174,
  0xE49B69C1, 0xEFBE4786, 0x0FC19DC6, 0x240CA1CC, 0x2DE92C6F, 0x4A7484AA, 0x5CB0A9DC, 0x76F988DA,
  0x983E5152, 0xA831C66D, 0xB00327C8, 0xBF597FC7, 0xC6E00BF3, 0xD5A79147, 0x06CA6351, 0x14292967,
  0x27B70A85, 0x2E1B2138, 0x4D2C6DFC, 0x53380D13, 0x650A7354, 0x766A0ABB, 0x81C2C92E, 0x92722C85,
  0xA2BFE8A1, 0xA81A664B, 0xC24B8B70, 0xC76C51A3, 0xD192E819, 0xD6990624, 0xF40E3585, 0x106AA070,
  0x19A4C116, 0x1E376C08, 0x2748774C, 0x34B0BCB5, 0x391C0CB3, 0x4ED8AA4A, 0x5B9CCA4F, 0x682E6FF3,
  0x748F82EE, 0x78A5636F, 0x84C87814, 0x8CC70208, 0x90BEFFFA, 0xA4506CEB, 0xBEF9A3F7, 0xC67178F2]"

definition H256 :: "word32 list" where
  "H256 = [0x6A09E667, 0xBB67AE85, 0x3C6EF372, 0xA54FF53A,
           0x510E527F, 0x9B05688C, 0x1F83D9AB, 0x5BE0CD19]"

fun be32 :: "byte list \<Rightarrow> word32 list" where
  "be32 (a # b # c # d # r) =
     (push_bit 24 (ucast a) OR push_bit 16 (ucast b) OR push_bit 8 (ucast c) OR ucast d) # be32 r"
| "be32 _ = []"

definition bytes_be32 :: "word32 \<Rightarrow> byte list" where
  "bytes_be32 w = [ucast (drop_bit 24 w), ucast (drop_bit 16 w), ucast (drop_bit 8 w), ucast w]"

definition bytes_be64 :: "64 word \<Rightarrow> byte list" where
  "bytes_be64 w = map (\<lambda>i. ucast (drop_bit i w)) [56, 48, 40, 32, 24, 16, 8, 0]"

text \<open>The message schedule, produced from a window of the last sixteen words.\<close>

fun schedule :: "nat \<Rightarrow> word32 list \<Rightarrow> word32 list" where
  "schedule 0 w = []"
| "schedule (Suc n) w =
     hd w # schedule n (tl w @ [ssig1 (w ! 14) + w ! 9 + ssig0 (w ! 1) + w ! 0])"

fun round256 :: "word32 \<times> word32 \<Rightarrow> word32 list \<Rightarrow> word32 list" where
  "round256 (k, w) [a, b, c, d, e, f, g, h] =
     (let t1 = h + bsig1 e + Ch e f g + k + w;
          t2 = bsig0 a + Maj a b c
      in [t1 + t2, a, b, c, d + t1, e, f, g])"
| "round256 _ s = s"

definition compress :: "word32 list \<Rightarrow> byte list \<Rightarrow> word32 list" where
  "compress hs blk = map2 (+) hs (fold round256 (zip K256 (schedule 64 (be32 blk))) hs)"

definition pad256 :: "byte list \<Rightarrow> byte list" where
  "pad256 m = m @ [0x80] @ replicate ((119 - length m mod 64) mod 64) 0
      @ bytes_be64 (word_of_nat (length m * 8))"

fun blocks :: "nat \<Rightarrow> byte list \<Rightarrow> byte list list" where
  "blocks 0 m = []"
| "blocks (Suc n) m = take 64 m # blocks n (drop 64 m)"

definition sha256 :: "byte list \<Rightarrow> byte list" where
  "sha256 m = (let p = pad256 m in
     concat (map bytes_be32 (fold (\<lambda>b h. compress h b) (blocks (length p div 64) p) H256)))"

definition hmac_key :: "byte list \<Rightarrow> byte list" where
  "hmac_key k = (let k' = (if length k > 64 then sha256 k else k)
                 in k' @ replicate (64 - length k') 0)"

definition hmac_sha256 :: "byte list \<Rightarrow> byte list \<Rightarrow> byte list" where
  "hmac_sha256 k m = (let kb = hmac_key k in
      sha256 (map (\<lambda>b. b XOR 0x5c) kb @ sha256 (map (\<lambda>b. b XOR 0x36) kb @ m)))"

section \<open>encoding/base64: \<^verbatim>\<open>URLEncoding.EncodeToString\<close>\<close>

definition encodeURL :: string where
  "encodeURL = ''ABCDEFGHIJKLMNOPQRSTUVWXYZabcdefghijklmnopqrstuvwxyz0123456789-_''"

definition b64sym :: "byte \<Rightarrow> char" where
  "b64sym v = encodeURL ! unat (v AND 0x3F)"

fun EncodeToString :: "byte list \<Rightarrow> string" where
  "EncodeToString (a # b # c # r) =
     [b64sym (drop_bit 2 a),
      b64sym (push_bit 4 (a AND 3) OR drop_bit 4 b),
      b64sym (push_bit 2 (b AND 15) OR drop_bit 6 c),
      b64sym c] @ EncodeToString r"
| "EncodeToString [a, b] =
     [b64sym (drop_bit 2 a),
      b64sym (push_bit 4 (a AND 3) OR drop_bit 4 b),
      b64sym (push_bit 2 (b AND 15)),
      CHR ''='']"
| "EncodeToString [a] =
     [b64sym (drop_bit 2 a), b64sym (push_bit 4 (a AND 3)), CHR ''='', CHR ''='']"
| "EncodeToString [] = []"

section \<open>net/url: \<^verbatim>\<open>QueryEscape\<close>, \<^verbatim>\<open>QueryUnescape\<close>, \<^verbatim>\<open>ParseQuery\<close>\<close>

definition upperhex :: string where
  "upperhex = ''0123456789ABCDEF''"

definition unreserved :: "char \<Rightarrow> bool" where
  "unreserved c \<longleftrightarrow>
     (let n = (of_char c :: nat) in
        (97 \<le> n \<and> n \<le> 122) \<or> (65 \<le> n \<and> n \<le> 90) \<or> (48 \<le> n \<and> n \<le> 57)
        \<or> c = CHR ''-'' \<or> c = CHR ''_'' \<or> c = CHR ''.'' \<or> c = CHR ''~'')"

definition escape_char :: "char \<Rightarrow> string" where
  "escape_char c =
     (if unreserved c then [c]
      else if c = CHR '' '' then ''+''
      else [CHR ''%'', upperhex ! (of_char c div 16), upperhex ! (of_char c mod 16)])"

definition QueryEscape :: "string \<Rightarrow> string" where
  "QueryEscape s = concat (map escape_char s)"

definition ishex :: "char \<Rightarrow> bool" where
  "ishex c \<longleftrightarrow>
     (let n = (of_char c :: nat) in
        (48 \<le> n \<and> n \<le> 57) \<or> (97 \<le> n \<and> n \<le> 102) \<or> (65 \<le> n \<and> n \<le> 70))"

definition unhex :: "char \<Rightarrow> nat" where
  "unhex c =
     (let n = (of_char c :: nat) in
        if 48 \<le> n \<and> n \<le> 57 then n - 48
        else if 97 \<le> n \<and> n \<le> 102 then n - 97 + 10
        else if 65 \<le> n \<and> n \<le> 70 then n - 65 + 10
        else 0)"

text \<open>\<^verbatim>\<open>QueryUnescape\<close> fails (\<^const>\<open>None\<close>) on a \<^verbatim>\<open>%\<close> that is not followed by two
  hexadecimal digits.\<close>

fun QueryUnescape :: "string \<Rightarrow> string option" where
  "QueryUnescape [] = Some []"
| "QueryUnescape (c # r) =
     (if c = CHR ''%'' then
        (case r of
           h # l # r' \<Rightarrow>
             if ishex h \<and> ishex l
             then map_option ((#) (char_of (unhex h * 16 + unhex l))) (QueryUnescape r')
             else None
         | _ \<Rightarrow> None)
      else if c = CHR ''+'' then map_option ((#) CHR '' '') (QueryUnescape r)
      else map_option ((#) c) (QueryUnescape r))"

text \<open>\<^verbatim>\<open>strings.Cut(s, sep)\<close> for a one-character separator: the text before the first
  separator and the text after it (empty when there is none).\<close>

definition Cut :: "char \<Rightarrow> string \<Rightarrow> string \<times> string" where
  "Cut sep s = (takeWhile (\<lambda>c. c \<noteq> sep) s, drop 1 (dropWhile (\<lambda>c. c \<noteq> sep) s))"

fun split_amp :: "string \<Rightarrow> string \<Rightarrow> string list" where
  "split_amp acc [] = [rev acc]"
| "split_amp acc (c # r) =
     (if c = CHR ''&'' then rev acc # split_amp [] r else split_amp (c # acc) r)"

text \<open>One \<^verbatim>\<open>key=value\<close> segment of \<^verbatim>\<open>parseQuery\<close>: segments with a semicolon, empty
  segments and segments that do not unescape are skipped.\<close>

definition parse_pair :: "string \<Rightarrow> (string \<times> string) list" where
  "parse_pair seg =
     (if CHR '';'' \<in> set seg then []
      else if seg = [] then []
      else (case QueryUnescape (fst (Cut CHR ''='' seg)) of
              None \<Rightarrow> []
            | Some k \<Rightarrow>
               (case QueryUnescape (snd (Cut CHR ''='' seg)) of
                  None \<Rightarrow> []
                | Some v \<Rightarrow> [(k, v)])))"

definition ParseQuery :: "string \<Rightarrow> (string \<times> string) list" where
  "ParseQuery q = concat (map parse_pair (split_amp [] q))"

section \<open>crypto/subtle: \<^verbatim>\<open>ConstantTimeCompare\<close>\<close>

definition ConstantTimeByteEq :: "byte \<Rightarrow> byte \<Rightarrow> int" where
  "ConstantTimeByteEq x y = uint (drop_bit 31 ((ucast (x XOR y) :: word32) - 1))"

definition ConstantTimeCompare :: "byte list \<Rightarrow> byte list \<Rightarrow> int" where
  "ConstantTimeCompare x y =
     (if length x \<noteq> length y then 0
      else ConstantTimeByteEq (fold (\<lambda>(a, b) v. v OR (a XOR b)) (zip x y) 0) 0)"

section \<open>time.Time and its \<^verbatim>\<open>String\<close> method (Go standard library)\<close>

text \<open>
  A \<^verbatim>\<open>time.Time\<close> is an instant (seconds and nanoseconds since the Unix epoch) with a
  location, of which the zone offset and abbreviation in force at that instant matter.
  \<^verbatim>\<open>String()\<close> formats it as \<^verbatim>\<open>2006-01-02 15:04:05.999999999 -0700 MST\<close>; times
  read from the database carry no monotonic clock reading.
\<close>

record Time =
  unix_sec :: int
  nsec :: nat
  zone_offset :: int
  zone_name :: string

definition zero_Time :: Time where
  "zero_Time = \<lparr>unix_sec = - 62135596800, nsec = 0, zone_offset = 0, zone_name = ''UTC''\<rparr>"

definition instant :: "Time \<Rightarrow> int" where
  "instant t = unix_sec t * 1000000000 + int (nsec t)"

definition digit :: "nat \<Rightarrow> char" where
  "digit n = ''0123456789'' ! (n mod 10)"

function dec :: "nat \<Rightarrow> string" where
  "dec n = (if n < 10 then [digit n] else dec (n div 10) @ [digit n])"
  by pat_completeness auto
termination
  by (relation "measure id") auto

definition appendInt :: "int \<Rightarrow> nat \<Rightarrow> string" where
  "appendInt x width =
     (let ds = dec (nat \<bar>x\<bar>)
      in (if x < 0 then ''-'' else []) @ replicate (width - length ds) CHR ''0'' @ ds)"

definition civil :: "int \<Rightarrow> int \<times> int \<times> int" where
  "civil days =
     (let z = days + 719468;
          era = z div 146097;
          doe = z - era * 146097;
          yoe = (doe - doe div 1460 + doe div 36524 - doe div 146096) div 365;
          doy = doe - (365 * yoe + yoe div 4 - yoe div 100);
          mp = (5 * doy + 2) div 153;
          d = doy - (153 * mp + 2) div 5 + 1;
          m = (if mp < 10 then mp + 3 else mp - 9)
      in (yoe + era * 400 + (if m \<le> 2 then 1 else 0), m, d))"

definition fracSecond :: "nat \<Rightarrow> string" where
  "fracSecond n =
     (if n = 0 then []
      else CHR ''.'' # rev (dropWhile (\<lambda>c. c = CHR ''0'') (rev (appendInt (int n) 9))))"

definition numTZ :: "int \<Rightarrow> string" where
  "numTZ offset =
     (let zone = \<bar>offset\<bar> div 60
      in (if offset \<le> - 60 then ''-'' else ''+'') @ appendInt (zone div 60) 2 @ appendInt (zone mod 60) 2)"

definition Time_String :: "Time \<Rightarrow> string" where
  "Time_String t =
     (let local = unix_sec t + zone_offset t;
          (y, m, d) = civil (local div 86400);
          s = local mod 86400
      in appendInt y 4 @ ''-'' @ appendInt m 2 @ ''-'' @ appendInt d 2 @ '' ''
         @ appendInt (s div 3600) 2 @ '':'' @ appendInt (s div 60 mod 60) 2 @ '':''
         @ appendInt (s mod 60) 2 @ fracSecond (nsec t) @ '' '' @ numTZ (zone_offset t) @ '' ''
         @ (if zone_name t \<noteq> [] then zone_name t else numTZ (zone_offset t)))"

section \<open>pkg/data: the listings\<close>

record NullString =
  String :: string
  Valid :: bool

definition zero_NullString :: NullString where
  "zero_NullString = \<lparr>String = [], Valid = False\<rparr>"

record Job =
  ID :: string
  Position :: string
  Organization :: string
  Url :: NullString
  Description :: NullString
  Email :: string
  PublishedAt :: Time

record Role =
  ID :: string
  Name :: string
  Email :: string
  Phone :: NullString
  Role :: string
  Resume :: string
  Linkedin :: NullString
  Website :: NullString
  Github :: NullString
  CompLow :: NullString
  CompHigh :: NullString
  PublishedAt :: Time

record NewJob =
  Position :: string
  Organization :: string
  Url :: string
  Description :: string
  Email :: string

record NewRole =
  Name :: string
  Email :: string
  Phone :: string
  Role :: string
  Resume :: string
  Linkedin :: string
  Website :: string
  Github :: string
  CompLow :: string
  CompHigh :: string

text \<open>The zero values of the structs, which \<^verbatim>\<open>var job Job\<close> declares.\<close>

definition zero_Job :: Job where
  "zero_Job = \<lparr>Job.ID = [], Job.Position = [], Job.Organization = [], Job.Url = zero_NullString,
     Job.Description = zero_NullString, Job.Email = [], Job.PublishedAt = zero_Time\<rparr>"

definition zero_Role :: Role where
  "zero_Role = \<lparr>Role.ID = [], Role.Name = [], Role.Email = [], Role.Phone = zero_NullString,
     Role.Role = [], Role.Resume = [], Role.Linkedin = zero_NullString,
     Role.Website = zero_NullString, Role.Github = zero_NullString,
     Role.CompLow = zero_NullString, Role.CompHigh = zero_NullString,
     Role.PublishedAt = zero_Time\<rparr>"

definition ErrNoPosition :: string where "ErrNoPosition = ''Must provide a Position''"
definition ErrNoOrganization :: string where "ErrNoOrganization = ''Must provide a Organization''"
definition ErrNoEmail :: string where "ErrNoEmail = ''Must provide an Email Address''"
definition ErrInvalidUrl :: string where "ErrInvalidUrl = ''Must provide a valid Url''"
definition ErrInvalidEmail :: string where "ErrInvalidEmail = ''Must provide a valid Email''"
definition ErrNoUrlOrDescription :: string where
  "ErrNoUrlOrDescription = ''Must provide either a Url or a Description''"
definition ErrNoName :: string where "ErrNoName = ''Must provide a Name''"
definition ErrNoRole :: string where "ErrNoRole = ''Must provide a Role''"
definition ErrNoResume :: string where "ErrNoResume = ''Must provide a Resume''"

definition nullable :: "string \<Rightarrow> NullString" where
  "nullable s = \<lparr>String = s, Valid = (s \<noteq> [])\<rparr>"

definition Job_Update :: "Job \<Rightarrow> NewJob \<Rightarrow> Job" where
  "Job_Update job newParams =
     job\<lparr>Job.Position := NewJob.Position newParams,
         Job.Organization := NewJob.Organization newParams,
         Job.Url := \<lparr>String = NewJob.Url newParams, Valid = (NewJob.Url newParams \<noteq> [])\<rparr>,
         Job.Description := \<lparr>String = NewJob.Description newParams,
                              Valid = (NewJob.Description newParams \<noteq> [])\<rparr>\<rparr>"

definition Role_Update :: "Role \<Rightarrow> NewRole \<Rightarrow> Role" where
  "Role_Update role newParams =
     role\<lparr>Role.Name := NewRole.Name newParams,
          Role.Role := NewRole.Role newParams,
          Role.Resume := NewRole.Resume newParams,
          Role.Phone := \<lparr>String = NewRole.Phone newParams, Valid = (NewRole.Phone newParams \<noteq> [])\<rparr>,
          Role.Linkedin := \<lparr>String = NewRole.Linkedin newParams,
                            Valid = (NewRole.Linkedin newParams \<noteq> [])\<rparr>,
          Role.Website := \<lparr>String = NewRole.Website newParams,
                           Valid = (NewRole.Website newParams \<noteq> [])\<rparr>,
          Role.Github := \<lparr>String = NewRole.Github newParams,
                          Valid = (NewRole.Github newParams \<noteq> [])\<rparr>,
          Role.CompLow := \<lparr>String = NewRole.CompLow newParams,
                           Valid = (NewRole.CompLow newParams \<noteq> [])\<rparr>,
          Role.CompHigh := \<lparr>String = NewRole.CompHigh newParams,
                            Valid = (NewRole.CompHigh newParams \<noteq> [])\<rparr>\<rparr>"

text \<open>The string that \<^verbatim>\<open>AuthSignature\<close> formats with \<^verbatim>\<open>fmt.Sprintf\<close> and writes into the
  HMAC (the local variable \<^verbatim>\<open>input\<close>).\<close>

definition Job_input :: "Job \<Rightarrow> string" where
  "Job_input job = Job.ID job @ '':'' @ Job.Email job @ '':'' @ Time_String (Job.PublishedAt job)"

definition Role_input :: "Role \<Rightarrow> string \<Rightarrow> string" where
  "Role_input role secret =
     Role.ID role @ '':'' @ Role.Email role @ '':'' @ Time_String (Role.PublishedAt role)
       @ '':'' @ secret"

definition Job_AuthSignature :: "Job \<Rightarrow> string \<Rightarrow> string" where
  "Job_AuthSignature job secret =
     EncodeToString (hmac_sha256 (bytes_of secret) (bytes_of (Job_input job)))"

definition Role_AuthSignature :: "Role \<Rightarrow> string \<Rightarrow> string" where
  "Role_AuthSignature role secret =
     EncodeToString (hmac_sha256 (bytes_of secret) (bytes_of (Role_input role secret)))"

section \<open>pkg/data: the store\<close>

text \<open>
  The database handle holds the two tables. A statement on it fails with the storage
  error \<open>fault\<close> when one is set (the connection is down, the server rejects the
  statement); without one, \<^verbatim>\<open>SELECT ... WHERE id = $1\<close> read through \<^verbatim>\<open>db.Get\<close> gives
  the first matching row, or \<^verbatim>\<open>sql.ErrNoRows\<close>.
\<close>

datatype sql_error = ErrNoRows | StorageError string

record DB =
  jobs :: "Job list"
  roles :: "Role list"
  fault :: "string option"

definition db_Get :: "string option \<Rightarrow> 'a list \<Rightarrow> ('a \<Rightarrow> bool) \<Rightarrow> sql_error + 'a" where
  "db_Get flt rows matches =
     (case flt of
        Some e \<Rightarrow> Inl (StorageError e)
      | None \<Rightarrow> (case find matches rows of None \<Rightarrow> Inl ErrNoRows | Some r \<Rightarrow> Inr r))"

definition GetJob :: "string \<Rightarrow> DB \<Rightarrow> Job \<times> sql_error option" where
  "GetJob jobID db =
     (case db_Get (fault db) (jobs db) (\<lambda>j. Job.ID j = jobID) of
        Inr job \<Rightarrow> (job, None)
      | Inl err \<Rightarrow> if err \<noteq> ErrNoRows then (zero_Job, Some err) else (zero_Job, None))"

definition GetRole :: "string \<Rightarrow> DB \<Rightarrow> Role \<times> sql_error option" where
  "GetRole roleID db =
     (case db_Get (fault db) (roles db) (\<lambda>r. Role.ID r = roleID) of
        Inr role \<Rightarrow> (role, None)
      | Inl err \<Rightarrow> if err \<noteq> ErrNoRows then (zero_Role, Some err) else (zero_Role, None))"

text \<open>\<^verbatim>\<open>UPDATE jobs SET position, organization, url, description WHERE id = $5\<close>\<close>

definition Job_Save :: "Job \<Rightarrow> DB \<Rightarrow> DB \<times> sql_error option" where
  "Job_Save job db =
     (case fault db of
        Some e \<Rightarrow> (db, Some (StorageError e))
      | None \<Rightarrow>
          (db\<lparr>jobs := map (\<lambda>r. if Job.ID r = Job.ID job
                                then r\<lparr>Job.Position := Job.Position job,
                                       Job.Organization := Job.Organization job,
                                       Job.Url := Job.Url job,
                                       Job.Description := Job.Description job\<rparr>
                                else r) (jobs db)\<rparr>, None))"

text \<open>
  \<^verbatim>\<open>NewJob.Validate\<close> and \<^verbatim>\<open>NewRole.Validate\<close>. The error map is an association list
  updated by key. Whether \<^verbatim>\<open>url.ParseRequestURI\<close> and \<^verbatim>\<open>mail.ParseAddress\<close> accept a
  string is decided by the standard library; the two predicates are parameters.
\<close>

definition NewJob_Validate ::
    "(string \<Rightarrow> bool) \<Rightarrow> (string \<Rightarrow> bool) \<Rightarrow> NewJob \<Rightarrow> bool \<Rightarrow> (string \<times> string) list" where
  "NewJob_Validate uri_ok mail_ok newJob update =
     (let errs = [];
          errs = (if NewJob.Position newJob = [] then AList.update ''position'' ErrNoPosition errs
                  else errs);
          errs = (if NewJob.Organization newJob = []
                  then AList.update ''organization'' ErrNoOrganization errs else errs);
          errs = (if NewJob.Url newJob = [] \<and> NewJob.Description newJob = []
                  then AList.update ''url'' ErrNoUrlOrDescription errs
                  else if NewJob.Description newJob = []
                  then (if \<not> uri_ok (NewJob.Url newJob)
                        then AList.update ''url'' ErrInvalidUrl errs else errs)
                  else errs);
          errs = (if \<not> update
                  then (if NewJob.Email newJob = [] then AList.update ''email'' ErrNoEmail errs
                        else if \<not> mail_ok (NewJob.Email newJob)
                        then AList.update ''email'' ErrInvalidEmail errs
                        else errs)
                  else errs)
      in errs)"

section \<open>pkg/server: requests, the signed routes and the middleware\<close>

text \<open>
  What a handler reads from \<^verbatim>\<open>*gin.Context\<close>: the route parameter \<^verbatim>\<open>id\<close>, the raw
  query string of the request URL, and what \<^verbatim>\<open>ctx.Bind\<close> makes of the posted form
  (\<^const>\<open>None\<close> when binding fails).
\<close>

record Context =
  Param_id :: string
  RawQuery :: string
  Form :: "NewJob option"

text \<open>\<^verbatim>\<open>ctx.Query(key)\<close>: the first value of the key in the parsed query, or the empty
  string.\<close>

definition Query :: "Context \<Rightarrow> string \<Rightarrow> string" where
  "Query ctx key = (case map_of (ParseQuery (RawQuery ctx)) key of None \<Rightarrow> [] | Some v \<Rightarrow> v)"

record Config =
  URL :: string
  AppSecret :: string

definition SignedJobRoute :: "Job \<Rightarrow> Config \<Rightarrow> string" where
  "SignedJobRoute job c =
     URL c @ ''/jobs/'' @ Job.ID job @ ''/edit?token=''
       @ QueryEscape (Job_AuthSignature job (AppSecret c))"

definition SignedRoleRoute :: "Role \<Rightarrow> Config \<Rightarrow> string" where
  "SignedRoleRoute role c =
     URL c @ ''/roles/'' @ Role.ID role @ ''/edit?token=''
       @ QueryEscape (Role_AuthSignature role (AppSecret c))"

definition JobRoute :: string where "JobRoute = ''job''"
definition RoleRoute :: string where "RoleRoute = ''role''"

text \<open>A middleware either lets the request through to the handler or aborts it with a
  status.\<close>

datatype verdict = Next | AbortWithStatus nat

definition StatusInternalServerError :: nat where "StatusInternalServerError = 500"
definition StatusNotFound :: nat where "StatusNotFound = 404"

definition requireTokenAuth :: "DB \<Rightarrow> string \<Rightarrow> string \<Rightarrow> Context \<Rightarrow> verdict" where
  "requireTokenAuth db secret authType ctx =
     (let token = bytes_of (Query ctx ''token'');
          check = (\<lambda>expected. if ConstantTimeCompare expected token = 0
                                then AbortWithStatus 403 else Next)
      in if authType = JobRoute then
           (let jobID = Param_id ctx in
            case GetJob jobID db of
              (job, Some err) \<Rightarrow> AbortWithStatus StatusInternalServerError
            | (job, None) \<Rightarrow>
                if Job.ID job \<noteq> jobID then AbortWithStatus StatusNotFound
                else check (bytes_of (Job_AuthSignature job secret)))
         else if authType = RoleRoute then
           (let roleID = Param_id ctx in
            case GetRole roleID db of
              (role, Some err) \<Rightarrow> AbortWithStatus StatusInternalServerError
            | (role, None) \<Rightarrow>
                if Role.ID role \<noteq> roleID then AbortWithStatus StatusNotFound
                else check (bytes_of (Role_AuthSignature role secret)))
         else AbortWithStatus StatusInternalServerError)"

text \<open>
  The earlier middleware \<^verbatim>\<open>requireAuth\<close> (installed by the first \<^verbatim>\<open>NewServer\<close> of
  server.go). Its helper \<^verbatim>\<open>signatureForJob\<close> is not among the sources and is a
  parameter.
\<close>

definition requireAuth :: "(Job \<Rightarrow> string \<Rightarrow> string) \<Rightarrow> DB \<Rightarrow> string \<Rightarrow> Context \<Rightarrow> verdict" where
  "requireAuth signatureForJob db secret ctx =
     (let jobID = Param_id ctx in
      case GetJob jobID db of
        (job, Some err) \<Rightarrow> AbortWithStatus StatusInternalServerError
      | (job, None) \<Rightarrow>
          (let token = Query ctx ''token'';
               expected = signatureForJob job secret
           in if token \<noteq> expected then AbortWithStatus 403 else Next))"

section \<open>pkg/server: the update handler\<close>

datatype response = Status nat | Redirect nat string

text \<open>The session's flashes: \<^verbatim>\<open>session.AddFlash(value, vars)\<close> appends a value under
  a key.\<close>

type_synonym Session = "(string \<times> string) list"

definition AddFlash :: "string \<Rightarrow> string \<Rightarrow> Session \<Rightarrow> Session" where
  "AddFlash v vars session = session @ [(vars, v)]"

definition UpdateJob ::
    "(string \<Rightarrow> bool) \<Rightarrow> (string \<Rightarrow> bool) \<Rightarrow> DB \<Rightarrow> Session \<Rightarrow> Context
       \<Rightarrow> response \<times> DB \<times> Session" where
  "UpdateJob uri_ok mail_ok db session ctx =
     (let jobID = Param_id ctx in
      case Form ctx of
        None \<Rightarrow> (Status StatusInternalServerError, db, session)
      | Some newJobInput \<Rightarrow>
          (let errs = NewJob_Validate uri_ok mail_ok newJobInput True in
           if length errs \<noteq> 0 then
             (Redirect 302 (''/jobs/'' @ jobID @ ''/edit?token='' @ Query ctx ''token''), db,
              fold (\<lambda>(k, v). AddFlash v (k @ ''_err'')) errs session)
           else
             (case GetJob jobID db of
                (job, Some err) \<Rightarrow> (Status StatusInternalServerError, db, session)
              | (job, None) \<Rightarrow>
                  (case Job_Save (Job_Update job newJobInput) db of
                     (db', Some err) \<Rightarrow> (Status StatusInternalServerError, db', session)
                   | (db', None) \<Rightarrow>
                       (Redirect 302 ''/'', db', AddFlash ''Job updated!'' ''_flash'' session)))))"

text \<open>\<^verbatim>\<open>POST /jobs/:id\<close> in the group that uses \<^verbatim>\<open>requireTokenAuth\<close>: an aborted request
  never reaches the handler.\<close>

definition POST_jobs_id ::
    "(string \<Rightarrow> bool) \<Rightarrow> (string \<Rightarrow> bool) \<Rightarrow> string \<Rightarrow> DB \<Rightarrow> Session \<Rightarrow> Context
       \<Rightarrow> response \<times> DB \<times> Session" where
  "POST_jobs_id uri_ok mail_ok secret db session ctx =
     (case requireTokenAuth db secret JobRoute ctx of
        AbortWithStatus code \<Rightarrow> (Status code, db, session)
      | Next \<Rightarrow> UpdateJob uri_ok mail_ok db session ctx)"

section \<open>The retention sweeper\<close>

text \<open>
  One pass of the background loop of \<^verbatim>\<open>run\<close>:
  \<^verbatim>\<open>DELETE FROM jobs WHERE published_at < NOW() - INTERVAL '30 DAYS'\<close>, at the clock
  reading \<open>now\<close> (nanoseconds since the epoch). A failed statement is logged and changes
  nothing. The loop then sleeps an hour and runs the next pass.
\<close>

definition thirty_days :: int where
  "thirty_days = 30 * 24 * 3600 * 1000000000"

definition expired :: "int \<Rightarrow> Time \<Rightarrow> bool" where
  "expired now published_at \<longleftrightarrow> instant published_at < now - thirty_days"

definition sweep_pass :: "int \<Rightarrow> DB \<Rightarrow> DB \<times> string list" where
  "sweep_pass now db =
     (case fault db of
        Some e \<Rightarrow> (db, [''error clearing old jobs: '' @ e])
      | None \<Rightarrow> (db\<lparr>jobs := filter (\<lambda>j. \<not> expired now (Job.PublishedAt j)) (jobs db)\<rparr>, []))"

text \<open>The first passes of the loop, one per clock reading.\<close>

fun sweeper :: "int list \<Rightarrow> DB \<Rightarrow> DB" where
  "sweeper [] db = db"
| "sweeper (now # later) db = sweeper later (fst (sweep_pass now db))"

text \<open>
  What \<^verbatim>\<open>url.Parse\<close> takes as the raw query of a URL: the fragment is cut at the first
  \<^verbatim>\<open>#\<close>, then the query at the first \<^verbatim>\<open>?\<close>.
\<close>

definition URL_RawQuery :: "string \<Rightarrow> string" where
  "URL_RawQuery rawURL = snd (Cut CHR ''?'' (fst (Cut CHR ''#'' rawURL)))"

section \<open>Example data\<close>

text \<open>The fixtures of routes\_test.go: the secret \<^verbatim>\<open>sup\<close>, one job and one role with id 1.\<close>

definition ex_time :: Time where
  "ex_time = \<lparr>unix_sec = 1704207845, nsec = 0, zone_offset = 0, zone_name = ''UTC''\<rparr>"

definition ex_time' :: Time where
  "ex_time' = \<lparr>unix_sec = 1709210096, nsec = 123456000, zone_offset = - 21600,
                zone_name = ''CST''\<rparr>"

definition ex_job :: Job where
  "ex_job = \<lparr>Job.ID = ''1'', Job.Position = ''Original Position'',
     Job.Organization = ''Original Organization'', Job.Url = zero_NullString,
     Job.Description = \<lparr>String = ''Original Description'', Valid = True\<rparr>,
     Job.Email = ''secret@secret.com'', Job.PublishedAt = ex_time\<rparr>"

definition ex_role :: Role where
  "ex_role = \<lparr>Role.ID = ''1'', Role.Name = ''Test'', Role.Email = ''test@example.com'',
     Role.Phone = \<lparr>String = ''316-555-1515'', Valid = True\<rparr>, Role.Role = ''any'',
     Role.Resume = ''# hey'', Role.Linkedin = zero_NullString,
     Role.Website = zero_NullString, Role.Github = zero_NullString,
     Role.CompLow = zero_NullString, Role.CompHigh = zero_NullString,
     Role.PublishedAt = ex_time\<rparr>"

definition ex_db :: DB where
  "ex_db = \<lparr>jobs = [ex_job], roles = [ex_role], fault = None\<rparr>"

definition ex_conf :: Config where
  "ex_conf = \<lparr>URL = ''http://localhost:8080'', AppSecret = ''sup''\<rparr>"

definition ex_form :: NewJob where
  "ex_form = \<lparr>NewJob.Position = ''Pos'', NewJob.Organization = ''Org'', NewJob.Url = [],
     NewJob.Description = [], NewJob.Email = []\<rparr>"

section \<open>Facts about the library functions\<close>

subsection \<open>Constant-time comparison decides equality\<close>

lemma unat_of_char: "unat (of_char c :: byte) = of_char c"
proof -
  have "(of_char c :: byte) = of_nat (of_char c)"
    by (simp add: of_nat_of_char)
  then have "unat (of_char c :: byte) = unat (of_nat (of_char c :: nat) :: byte)"
    by simp
  also have "\<dots> = (of_char c :: nat) mod 256"
    by (simp add: unat_of_nat)
  finally show ?thesis by simp
qed

lemma of_char_byte_eq_iff: "(of_char c :: byte) = of_char d \<longleftrightarrow> c = d"
proof
  assume "(of_char c :: byte) = of_char d"
  then have "unat (of_char c :: byte) = unat (of_char d :: byte)" by simp
  then have "(of_char c :: nat) = of_char d" by (simp only: unat_of_char)
  then show "c = d" by simp
qed simp

lemma bytes_of_eq_iff: "bytes_of s = bytes_of t \<longleftrightarrow> s = t"
  unfolding bytes_of_def
  by (simp add: inj_map_eq_map inj_on_def of_char_byte_eq_iff)

lemma drop_bit_31_small: 
  fixes x :: byte
  assumes "x \<noteq> 0"
  shows "drop_bit 31 ((ucast x :: word32) - 1) = 0"
proof -
  have ux: "unat (ucast x :: word32) = unat x"
    by transfer simp
  have "unat x \<noteq> 0" using assms by (simp add: unat_eq_0)
  then have nz: "(ucast x :: word32) \<noteq> 0" using ux by (metis unat_eq_0)
  have "unat x < 256" using unsigned_less[of x] by simp
  then have "unat ((ucast x :: word32) - 1) < 256"
    using unat_minus_one[OF nz] ux by simp
  then have "unat (drop_bit 31 ((ucast x :: word32) - 1)) = 0"
    by (simp only: unat_drop_bit_eq) (simp add: drop_bit_eq_div)
  then show ?thesis by (simp add: unat_eq_0)
qed

lemma ConstantTimeByteEq_iff: "ConstantTimeByteEq x y = (if x = y then 1 else 0)"
proof (cases "x = y")
  case True
  then show ?thesis by (simp add: ConstantTimeByteEq_def)
next
  case False
  then have "x XOR y \<noteq> 0" by (metis bit.xor_self xor.right_neutral xor.left_commute xor.commute bit.xor_left_self)
  then show ?thesis using False by (simp add: ConstantTimeByteEq_def drop_bit_31_small)
qed

lemma or_xor_zero: "(v OR (a XOR b) = (0::byte)) \<longleftrightarrow> v = 0 \<and> a = b"
  by (metis bit.xor_left_self or_eq_0_iff xor.right_neutral)

lemma fold_or_xor_zero:
  "length x = length y \<Longrightarrow>
   fold (\<lambda>(a, b) v. v OR (a XOR b)) (zip x y) (v :: byte) = 0 \<longleftrightarrow> v = 0 \<and> x = y"
proof (induction x y arbitrary: v rule: list_induct2)
  case Nil
  then show ?case by simp
next
  case (Cons a x b y)
  then show ?case by (auto simp add: or_xor_zero)
qed

lemma ConstantTimeCompare_iff: "ConstantTimeCompare x y = (if x = y then 1 else 0)"
proof (cases "length x = length y")
  case True
  then show ?thesis
    by (simp add: ConstantTimeCompare_def ConstantTimeByteEq_iff fold_or_xor_zero)
next
  case False
  then show ?thesis by (auto simp add: ConstantTimeCompare_def)
qed

subsection \<open>Query escaping round-trips\<close>

lemma below16: "(k::nat) < 16 \<longleftrightarrow> k \<in> set [0, 1, 2, 3, 4, 5, 6, 7, 8, 9, 10, 11, 12, 13, 14, 15]"
proof -
  have "[0..<16] = [0, 1, 2, 3, 4, 5, 6, 7, 8, 9, 10, 11, 12, 13, 14, 15::nat]"
    by (simp add: upt_rec)
  then have "set [0, 1, 2, 3, 4, 5, 6, 7, 8, 9, 10, 11, 12, 13, 14, 15::nat] = {0..<16}"
    by (metis set_upt)
  then show ?thesis by (simp only: atLeastLessThan_iff) simp
qed

lemma upperhex_digit:
  "k < 16 \<Longrightarrow> ishex (upperhex ! k) \<and> unhex (upperhex ! k) = k"
proof -
  assume "k < 16"
  then have "k \<in> set [0, 1, 2, 3, 4, 5, 6, 7, 8, 9, 10, 11, 12, 13, 14, 15]"
    using below16 by simp
  then show ?thesis
    by (auto simp add: upperhex_def ishex_def unhex_def)
qed

lemma upperhex_plain:
  "k < 16 \<Longrightarrow> upperhex ! k \<notin> {CHR ''&'', CHR '';'', CHR ''='', CHR ''#'', CHR ''?''}"
proof -
  assume "k < 16"
  then have "k \<in> set [0, 1, 2, 3, 4, 5, 6, 7, 8, 9, 10, 11, 12, 13, 14, 15]"
    using below16 by simp
  then show ?thesis
    by (auto simp add: upperhex_def)
qed

lemma unreserved_plain:
  "unreserved c \<Longrightarrow>
     c \<notin> {CHR ''%'', CHR ''+'', CHR ''&'', CHR '';'', CHR ''='', CHR ''#'', CHR ''?''}"
  by (auto simp add: unreserved_def)

lemma of_char_div_16: "(of_char c :: nat) div 16 < 16"
proof -
  have "(of_char c :: nat) < 256" by simp
  then show ?thesis by linarith
qed

lemma QueryUnescape_escape_char:
  "QueryUnescape (escape_char c @ r) = map_option ((#) c) (QueryUnescape r)"
proof (cases "unreserved c")
  case True
  then show ?thesis using unreserved_plain[OF True] by (simp add: escape_char_def)
next
  case nu: False
  show ?thesis
  proof (cases "c = CHR '' ''")
    case True
    then show ?thesis using nu by (simp add: escape_char_def)
  next
    case False
    have hi: "ishex (upperhex ! (of_char c div 16))" "unhex (upperhex ! (of_char c div 16)) = of_char c div 16"
      using upperhex_digit[OF of_char_div_16[of c]] by simp_all
    have lo: "ishex (upperhex ! (of_char c mod 16))" "unhex (upperhex ! (of_char c mod 16)) = of_char c mod 16"
      using upperhex_digit[of "of_char c mod 16"] by simp_all
    have "char_of ((of_char c :: nat) div 16 * 16 + of_char c mod 16) = c"
      by simp
    then show ?thesis using nu False hi lo by (simp add: escape_char_def)
  qed
qed

lemma QueryUnescape_QueryEscape: "QueryUnescape (QueryEscape s) = Some s"
  unfolding QueryEscape_def
  by (induction s) (simp_all add: QueryUnescape_escape_char)

lemma escape_char_plain:
  "set (escape_char c) \<inter> {CHR ''&'', CHR '';'', CHR ''='', CHR ''#'', CHR ''?''} = {}"
proof (cases "unreserved c")
  case True
  then show ?thesis using unreserved_plain[OF True] by (simp add: escape_char_def)
next
  case False
  then show ?thesis
    using upperhex_plain[OF of_char_div_16[of c]] upperhex_plain[of "of_char c mod 16"]
    by (auto simp add: escape_char_def)
qed

lemma QueryEscape_plain:
  "set (QueryEscape s) \<inter> {CHR ''&'', CHR '';'', CHR ''='', CHR ''#'', CHR ''?''} = {}"
  unfolding QueryEscape_def using escape_char_plain by (induction s) auto

lemma split_amp_none: "CHR ''&'' \<notin> set q \<Longrightarrow> split_amp acc q = [rev acc @ q]"
  by (induction q arbitrary: acc) auto

lemma ParseQuery_token:
  "ParseQuery (''token='' @ QueryEscape s) = [(''token'', s)]"
proof -
  let ?e = "QueryEscape s"
  have pl: "CHR ''&'' \<notin> set ?e" "CHR '';'' \<notin> set ?e" "CHR ''='' \<notin> set ?e"
    using QueryEscape_plain[of s] by auto
  have sp: "split_amp [] (''token='' @ ?e) = [''token='' @ ?e]"
    using split_amp_none[of "''token='' @ ?e" "[]"] pl by simp
  have cut: "Cut CHR ''='' (''token='' @ ?e) = (''token'', ?e)"
    by (simp add: Cut_def)
  have "parse_pair (''token='' @ ?e) = [(''token'', s)]"
    unfolding parse_pair_def cut using pl by (simp add: QueryUnescape_QueryEscape)
  then show ?thesis unfolding ParseQuery_def sp by simp
qed

subsection \<open>Sizes and alphabet of a signature\<close>

lemma length_round256: "length (round256 kw s) = length s"
  by (cases "(kw, s)" rule: round256.cases) (simp_all add: Let_def)

lemma length_fold_round256: "length (fold round256 xs s) = length s"
  by (induction xs arbitrary: s) (simp_all add: length_round256)

lemma length_compress: "length (compress hs blk) = length hs"
  by (simp add: compress_def length_fold_round256)

lemma length_fold_compress: "length (fold (\<lambda>b h. compress h b) bs h) = length h"
  by (induction bs arbitrary: h) (simp_all add: length_compress)

lemma length_concat_bytes_be32: "length (concat (map bytes_be32 ws)) = 4 * length ws"
  by (induction ws) (simp_all add: bytes_be32_def)

lemma length_sha256: "length (sha256 m) = 32"
  by (simp add: sha256_def Let_def length_concat_bytes_be32 length_fold_compress H256_def)

lemma length_hmac_sha256: "length (hmac_sha256 k m) = 32"
  by (simp add: hmac_sha256_def Let_def length_sha256)

lemma length_EncodeToString: "length (EncodeToString bs) = 4 * ((length bs + 2) div 3)"
proof (induction bs rule: EncodeToString.induct)
  case (1 a b c r)
  have "(5 + length r) div 3 = Suc (Suc (Suc (length r)) div 3)" by arith
  with 1 show ?case by simp
qed simp_all

lemma length_Job_AuthSignature: "length (Job_AuthSignature job secret) = 44"
  by (simp add: Job_AuthSignature_def length_EncodeToString length_hmac_sha256)

lemma length_Role_AuthSignature: "length (Role_AuthSignature role secret) = 44"
  by (simp add: Role_AuthSignature_def length_EncodeToString length_hmac_sha256)

lemma b64sym_alphabet: "b64sym v \<in> set encodeURL"
proof -
  have "v AND 0x3F \<le> 0x3F" by (rule word_and_le1)
  then have "unat (v AND 0x3F) < 64" by (simp add: word_le_nat_alt)
  moreover have "length encodeURL = 64" by (simp add: encodeURL_def)
  ultimately show ?thesis unfolding b64sym_def by (metis nth_mem)
qed

lemma EncodeToString_alphabet: "set (EncodeToString bs) \<subseteq> set encodeURL \<union> {CHR ''=''}"
  by (induction bs rule: EncodeToString.induct) (auto simp add: b64sym_alphabet)

section \<open>The authorization middleware\<close>

lemma db_Get_Inr_D:
  "db_Get flt rows p = Inr r \<Longrightarrow> flt = None \<and> find p rows = Some r \<and> p r"
  by (auto simp add: db_Get_def find_Some_iff split: option.splits)

lemma requireTokenAuth_job:
  assumes "db_Get (fault db) (jobs db) (\<lambda>j. Job.ID j = Param_id ctx) = Inr job"
  shows "requireTokenAuth db secret JobRoute ctx =
           (if Query ctx ''token'' = Job_AuthSignature job secret then Next
            else AbortWithStatus 403)"
proof -
  have "Job.ID job = Param_id ctx" using db_Get_Inr_D[OF assms] by simp
  then show ?thesis
    using assms
    by (auto simp add: requireTokenAuth_def GetJob_def Let_def ConstantTimeCompare_iff
        bytes_of_eq_iff)
qed

lemma requireTokenAuth_role:
  assumes "db_Get (fault db) (roles db) (\<lambda>r. Role.ID r = Param_id ctx) = Inr role"
  shows "requireTokenAuth db secret RoleRoute ctx =
           (if Query ctx ''token'' = Role_AuthSignature role secret then Next
            else AbortWithStatus 403)"
proof -
  have "Role.ID role = Param_id ctx" using db_Get_Inr_D[OF assms] by simp
  then show ?thesis
    using assms
    by (auto simp add: requireTokenAuth_def GetRole_def Let_def ConstantTimeCompare_iff
        bytes_of_eq_iff JobRoute_def RoleRoute_def)
qed

lemma Cut_append:
  "sep \<notin> set xs \<Longrightarrow> Cut sep (xs @ sep # ys) = (xs, ys)"
  by (induction xs) (auto simp add: Cut_def)

lemma Cut_none: "sep \<notin> set xs \<Longrightarrow> fst (Cut sep xs) = xs"
  by (induction xs) (auto simp add: Cut_def)

lemma URL_RawQuery_SignedJobRoute:
  assumes "CHR ''?'' \<notin> set (URL c @ Job.ID job)" and "CHR ''#'' \<notin> set (URL c @ Job.ID job)"
  shows "URL_RawQuery (SignedJobRoute job c)
           = ''token='' @ QueryEscape (Job_AuthSignature job (AppSecret c))"
proof -
  let ?e = "QueryEscape (Job_AuthSignature job (AppSecret c))"
  have pl: "CHR ''#'' \<notin> set ?e" "CHR ''?'' \<notin> set ?e"
    using QueryEscape_plain[of "Job_AuthSignature job (AppSecret c)"] by auto
  have "CHR ''#'' \<notin> set (SignedJobRoute job c)"
    using assms pl by (simp add: SignedJobRoute_def)
  then have 1: "fst (Cut CHR ''#'' (SignedJobRoute job c)) = SignedJobRoute job c"
    by (rule Cut_none)
  have 2: "SignedJobRoute job c = (URL c @ ''/jobs/'' @ Job.ID job @ ''/edit'') @ CHR ''?'' # (''token='' @ ?e)"
    by (simp add: SignedJobRoute_def)
  have 3: "CHR ''?'' \<notin> set (URL c @ ''/jobs/'' @ Job.ID job @ ''/edit'')"
    using assms by simp
  show ?thesis
    unfolding URL_RawQuery_def 1 unfolding 2 Cut_append[OF 3] by simp
qed

text \<open>
  Claim C1. The edit link built by \<^verbatim>\<open>SignedJobRoute\<close> for a stored job carries, after the
  query decoding that \<^verbatim>\<open>ctx.Query\<close> performs, exactly the signature the middleware
  recomputes, so the request that follows the link passes \<^verbatim>\<open>requireTokenAuth\<close>. The
  base URL and the id are taken not to contain \<^verbatim>\<open>?\<close> or \<^verbatim>\<open>#\<close>, so that the link parses
  as it was built.
\<close>

theorem signed_job_route_authorizes:
  assumes "db_Get (fault db) (jobs db) (\<lambda>j. Job.ID j = Job.ID job) = Inr job"
    and "CHR ''?'' \<notin> set (URL c @ Job.ID job)"
    and "CHR ''#'' \<notin> set (URL c @ Job.ID job)"
    and "Param_id ctx = Job.ID job"
    and "RawQuery ctx = URL_RawQuery (SignedJobRoute job c)"
  shows "Query ctx ''token'' = Job_AuthSignature job (AppSecret c)
         \<and> requireTokenAuth db (AppSecret c) JobRoute ctx = Next"
proof -
  have q: "Query ctx ''token'' = Job_AuthSignature job (AppSecret c)"
    unfolding Query_def assms(5) URL_RawQuery_SignedJobRoute[OF assms(2,3)] ParseQuery_token
    by simp
  have "db_Get (fault db) (jobs db) (\<lambda>j. Job.ID j = Param_id ctx) = Inr job"
    using assms(1,4) by simp
  from requireTokenAuth_job[OF this, of "AppSecret c"] q show ?thesis by simp
qed

theorem signed_job_route_authorizes_witness:
  "Query \<lparr>Param_id = ''1'', RawQuery = URL_RawQuery (SignedJobRoute ex_job ex_conf), Form = None\<rparr> ''token''
     = Job_AuthSignature ex_job ''sup''
   \<and> requireTokenAuth ex_db ''sup'' JobRoute
        \<lparr>Param_id = ''1'', RawQuery = URL_RawQuery (SignedJobRoute ex_job ex_conf), Form = None\<rparr> = Next"
proof -
  have 1: "db_Get (fault ex_db) (jobs ex_db) (\<lambda>j. Job.ID j = Job.ID ex_job) = Inr ex_job"
    by (simp add: db_Get_def ex_db_def)
  have 2: "CHR ''?'' \<notin> set (URL ex_conf @ Job.ID ex_job)"
    by (simp add: ex_conf_def ex_job_def)
  have 3: "CHR ''#'' \<notin> set (URL ex_conf @ Job.ID ex_job)"
    by (simp add: ex_conf_def ex_job_def)
  have 4: "Param_id \<lparr>Param_id = ''1'', RawQuery = URL_RawQuery (SignedJobRoute ex_job ex_conf), Form = None\<rparr> = Job.ID ex_job"
    by (simp add: ex_job_def)
  have 5: "AppSecret ex_conf = ''sup''"
    by (simp add: ex_conf_def)
  show ?thesis
    using signed_job_route_authorizes[OF 1 2 3 4] 5 by simp
qed

text \<open>
  Claim C2. For a stored job (or role) and any token other than its signature, the
  middleware aborts the request with status 403.
\<close>

theorem wrong_token_forbidden:
  "(db_Get (fault db) (jobs db) (\<lambda>j. Job.ID j = Param_id ctx) = Inr job
      \<and> Query ctx ''token'' \<noteq> Job_AuthSignature job secret
      \<longrightarrow> requireTokenAuth db secret JobRoute ctx = AbortWithStatus 403)
   \<and> (db_Get (fault db) (roles db) (\<lambda>r. Role.ID r = Param_id ctx) = Inr role
      \<and> Query ctx ''token'' \<noteq> Role_AuthSignature role secret
      \<longrightarrow> requireTokenAuth db secret RoleRoute ctx = AbortWithStatus 403)"
  using requireTokenAuth_job[of db ctx job secret] requireTokenAuth_role[of db ctx role secret]
  by simp

lemma Job_AuthSignature_neq: "length t \<noteq> 44 \<Longrightarrow> t \<noteq> Job_AuthSignature job secret"
  using length_Job_AuthSignature by blast

lemma Role_AuthSignature_neq: "length t \<noteq> 44 \<Longrightarrow> t \<noteq> Role_AuthSignature role secret"
  using length_Role_AuthSignature by blast

lemma Query_incorrect:
  "Query \<lparr>Param_id = i, RawQuery = ''token=incorrect'', Form = f\<rparr> ''token'' = ''incorrect''"
  by (simp add: Query_def ParseQuery_def parse_pair_def Cut_def)

theorem wrong_token_forbidden_witness:
  "requireTokenAuth ex_db ''sup'' JobRoute
       \<lparr>Param_id = ''1'', RawQuery = ''token=incorrect'', Form = None\<rparr> = AbortWithStatus 403
   \<and> requireTokenAuth ex_db ''sup'' RoleRoute
       \<lparr>Param_id = ''1'', RawQuery = ''token=incorrect'', Form = None\<rparr> = AbortWithStatus 403"
proof -
  let ?ctx = "\<lparr>Param_id = ''1'', RawQuery = ''token=incorrect'', Form = None\<rparr>"
  have j: "db_Get (fault ex_db) (jobs ex_db) (\<lambda>j. Job.ID j = Param_id ?ctx) = Inr ex_job"
    by (simp add: db_Get_def ex_db_def ex_job_def)
  have r: "db_Get (fault ex_db) (roles ex_db) (\<lambda>r. Role.ID r = Param_id ?ctx) = Inr ex_role"
    by (simp add: db_Get_def ex_db_def ex_role_def)
  have nj: "Query ?ctx ''token'' \<noteq> Job_AuthSignature ex_job ''sup''"
    unfolding Query_incorrect by (rule Job_AuthSignature_neq) simp
  have nr: "Query ?ctx ''token'' \<noteq> Role_AuthSignature ex_role ''sup''"
    unfolding Query_incorrect by (rule Role_AuthSignature_neq) simp
  show ?thesis
    using wrong_token_forbidden[of ex_db ?ctx ex_job "''sup''" ex_role] j r nj nr by blast
qed

end
